theory Spec2Isabelle
  imports Complex_Main
begin

section \<open>The chat page: data model\<close>

text \<open>
  The development follows the component \<open>ChatPage\<close> of the variant that carries the
  related suggestions (state hooks \<open>inputMessage\<close>, \<open>messages\<close>, \<open>isLoading\<close>,
  \<open>error\<close>, \<open>related\<close>; handlers \<open>handleClear\<close>, \<open>sendMessage\<close>, \<open>handleSubmit\<close>,
  \<open>handleRelatedClick\<close>). Strings are lists of code units; the 8-bit \<open>char\<close> of HOL
  covers the code units U+0000 to U+00FF.
\<close>

subsection \<open>JavaScript values\<close>

text \<open>
  The values that \<open>response.json()\<close> can produce, and \<open>undefined\<close>, which reading a
  missing property yields. An object is the list of its own enumerable properties in
  enumeration order, each key once. A number is the value the parser produced.
\<close>

datatype jsval =
    Undefined
  | JNull
  | JBool bool
  | JNum rat
  | JStr string
  | JArr "jsval list"
  | JObj "(string \<times> jsval) list"

text \<open>What a \<open>throw\<close> or a rejected promise carries: an \<open>Error\<close> with its message, or
  any other value.\<close>

datatype thrown = ErrorObj string | NonError

text \<open>Truthiness, as \<open>||\<close>, \<open>&&\<close> and \<open>!\<close> decide it.\<close>

fun truthy :: "jsval \<Rightarrow> bool" where
  "truthy Undefined = False"
| "truthy JNull = False"
| "truthy (JBool b) = b"
| "truthy (JNum n) = (n \<noteq> 0)"
| "truthy (JStr s) = (s \<noteq> [])"
| "truthy (JArr xs) = True"
| "truthy (JObj kvs) = True"

text \<open>
  Reading one of the properties \<open>message\<close>, \<open>reply\<close>, \<open>related\<close> of a value: a
  \<open>TypeError\<close> on \<open>null\<close> and \<open>undefined\<close> (the message is the one V8 gives), the
  own property of an object, and \<open>undefined\<close> on every other value, none of which has a
  property of these names.
\<close>

definition typeErrorMessage :: "string \<Rightarrow> string \<Rightarrow> string" where
  "typeErrorMessage v k =
     ''Cannot read properties of '' @ v @ '' (reading '' @ [CHR 0x27] @ k @ [CHR 0x27] @ '')''"

fun property :: "jsval \<Rightarrow> string \<Rightarrow> thrown + jsval" where
  "property Undefined k = Inl (ErrorObj (typeErrorMessage ''undefined'' k))"
| "property JNull k = Inl (ErrorObj (typeErrorMessage ''null'' k))"
| "property (JObj kvs) k = Inr (case map_of kvs k of None \<Rightarrow> Undefined | Some v \<Rightarrow> v)"
| "property v k = Inr Undefined"

subsection \<open>Numbers as strings\<close>

text \<open>\<open>Number.prototype.toString\<close> on the integers a clock reading can be: the decimal
  digits, after a minus sign for a negative number.\<close>

definition digit :: "nat \<Rightarrow> char" where
  "digit d = char_of (48 + d)"

fun nat_toString :: "nat \<Rightarrow> string" where
  "nat_toString n = (if n < 10 then [digit n] else nat_toString (n div 10) @ [digit (n mod 10)])"

declare nat_toString.simps [simp del]

definition toString :: "int \<Rightarrow> string" where
  "toString i = (if i < 0 then CHR ''-'' # nat_toString (nat (- i)) else nat_toString (nat i))"

subsection \<open>Messages\<close>

datatype sender = User | Bot

datatype status = Sent | Delivered | Error

text \<open>The string \<open>toISOString\<close> gives is determined by the instant it formats, which
  stands for it here.\<close>

datatype iso8601 = toISOString int

text \<open>
  The type \<open>Message\<close>. The field \<open>text\<close> is declared a string; the text of a bot
  message is whatever value the reply expression yields, so the field holds a value.
\<close>

record Message =
  msg_id :: string
  msg_text :: jsval
  msg_sender :: sender
  msg_timestamp :: iso8601
  msg_status :: "status option"

subsection \<open>Requests and their outcomes\<close>

datatype body = JSON_stringify jsval

record request =
  req_url :: string
  req_method :: string
  req_headers :: "(string \<times> string) list"
  req_body :: body

text \<open>
  How the awaited \<open>fetch\<close> settles: the promise rejects, or it resolves to a response
  with a status, whose \<open>json()\<close> in turn resolves to the parsed body or rejects.
\<close>

datatype json_result = Json jsval | JsonRejects thrown

datatype fetch_result = FetchRejects thrown | Response nat json_result

definition response_ok :: "nat \<Rightarrow> bool" where
  "response_ok st = (200 \<le> st \<and> st \<le> 299)"

subsection \<open>The state\<close>

text \<open>
  The five state hooks of the component, the browser storage it reads, and a log of its
  two effects on the outside: the calls of \<open>navigate\<close> and the calls of \<open>fetch\<close>.
\<close>

record world =
  inputMessage :: string
  messages :: "Message list"
  isLoading :: bool
  error :: string
  related :: jsval
  localStorage :: "string \<rightharpoonup> string"
  navigated :: "string list"
  fetched :: "request list"

definition navigate :: "string \<Rightarrow> world \<Rightarrow> world" where
  "navigate path w = w\<lparr>navigated := navigated w @ [path]\<rparr>"

text \<open>The state of a freshly mounted component.\<close>

definition mounted :: "(string \<rightharpoonup> string) \<Rightarrow> world" where
  "mounted store =
     \<lparr>inputMessage = [], messages = [], isLoading = False, error = [], related = JNull,
      localStorage = store, navigated = [], fetched = []\<rparr>"

section \<open>The handlers\<close>

definition handleLogout :: "world \<Rightarrow> world" where
  "handleLogout w = navigate ''/login'' (w\<lparr>localStorage := (localStorage w)(''token'' := None)\<rparr>)"

definition handleClear :: "world \<Rightarrow> world" where
  "handleClear w = w\<lparr>messages := [], error := [], related := JNull\<rparr>"

subsection \<open>sendMessage\<close>

text \<open>
  An asynchronous function runs up to its first \<open>await\<close> when it is called and the rest
  when the awaited promise settles. A call either has returned, or is suspended at the
  \<open>await\<close> with its request in flight.
\<close>

datatype suspension = Returned world | Awaiting world

fun world_of :: "suspension \<Rightarrow> world" where
  "world_of (Returned w) = w"
| "world_of (Awaiting w) = w"

text \<open>\<open>!token\<close> for the result of \<open>getItem\<close>: \<open>null\<close> and the empty string.\<close>

fun not_token :: "string option \<Rightarrow> bool" where
  "not_token None = True"
| "not_token (Some t) = (t = [])"

text \<open>
  From the call to the \<open>await\<close>. \<open>now\<close> is what \<open>Date.now()\<close> reads and \<open>date\<close> the
  instant of \<open>new Date()\<close>. The message list is updated by a function of the previous
  list, the other hooks by constants.
\<close>

definition sendMessage_begin :: "world \<Rightarrow> string \<Rightarrow> int \<Rightarrow> int \<Rightarrow> suspension" where
  "sendMessage_begin w messageText now date =
     (case localStorage w ''token'' of
        None \<Rightarrow> Returned (navigate ''/login'' w)
      | Some token \<Rightarrow>
          if not_token (Some token) then Returned (navigate ''/login'' w)
          else
            let userMessage =
                  \<lparr>msg_id = toString now, msg_text = JStr messageText, msg_sender = User,
                   msg_timestamp = toISOString date, msg_status = None\<rparr>;
                w1 = w\<lparr>messages := messages w @ [userMessage]\<rparr>;
                w2 = w1\<lparr>isLoading := True\<rparr>;
                w3 = w2\<lparr>inputMessage := []\<rparr>;
                w4 = w3\<lparr>error := []\<rparr>;
                w5 = w4\<lparr>related := JNull\<rparr>;
                req = \<lparr>req_url = ''http://localhost:3000/api/message'',
                       req_method = ''POST'',
                       req_headers = [(''Content-Type'', ''application/json''),
                                      (''Authorization'', ''Bearer '' @ token)],
                       req_body = JSON_stringify (JObj [(''message'', msg_text userMessage)])\<rparr>
            in Awaiting (w5\<lparr>fetched := fetched w5 @ [req]\<rparr>))"

text \<open>\<open>a || b\<close>, with \<open>b\<close> evaluated only when \<open>a\<close> is falsy.\<close>

definition reply_text :: "jsval \<Rightarrow> thrown + jsval" where
  "reply_text data =
     (case property data ''message'' of
        Inl e \<Rightarrow> Inl e
      | Inr m \<Rightarrow>
          if truthy m then Inr m
          else (case property data ''reply'' of
                  Inl e \<Rightarrow> Inl e
                | Inr r \<Rightarrow>
                    if truthy r then Inr r
                    else Inr (JStr ''Sorry, I could not process your request.'')))"

text \<open>
  The body of \<open>try\<close>, once \<open>fetch\<close> has settled: the state it reaches, or the value
  thrown together with the state reached by then. The code awaits \<open>fetch\<close> and then
  \<open>response.json()\<close>, and touches no state between the two, so all its updates take
  place at one moment, when the second has settled or when the first has failed.
\<close>

definition try_block :: "world \<Rightarrow> fetch_result \<Rightarrow> int \<Rightarrow> int \<Rightarrow> (thrown \<times> world) + world" where
  "try_block w res now date =
     (case res of
        FetchRejects e \<Rightarrow> Inl (e, w)
      | Response st body \<Rightarrow>
          if \<not> response_ok st then Inl (ErrorObj ''Failed to send message'', w)
          else
            (case body of
               JsonRejects e \<Rightarrow> Inl (e, w)
             | Json data \<Rightarrow>
                 (case reply_text data of
                    Inl e \<Rightarrow> Inl (e, w)
                  | Inr t \<Rightarrow>
                      let botMessage =
                            \<lparr>msg_id = toString (now + 1), msg_text = t, msg_sender = Bot,
                             msg_timestamp = toISOString date, msg_status = None\<rparr>;
                          w1 = w\<lparr>messages := messages w @ [botMessage]\<rparr>
                      in (case property data ''related'' of
                            Inl e \<Rightarrow> Inl (e, w1)
                          | Inr r \<Rightarrow> Inr (w1\<lparr>related := (if truthy r then r else JNull)\<rparr>)))))"

text \<open>\<open>err instanceof Error ? err.message : "Failed to send message"\<close>\<close>

fun catch_message :: "thrown \<Rightarrow> string" where
  "catch_message (ErrorObj m) = m"
| "catch_message NonError = ''Failed to send message''"

text \<open>From the settling of \<open>fetch\<close> to the end: \<open>try\<close>, \<open>catch\<close>, \<open>finally\<close>.\<close>

definition sendMessage_settle :: "world \<Rightarrow> fetch_result \<Rightarrow> int \<Rightarrow> int \<Rightarrow> world" where
  "sendMessage_settle w res now date =
     (case try_block w res now date of
        Inl (err, w1) \<Rightarrow> (w1\<lparr>error := catch_message err\<rparr>)\<lparr>isLoading := False\<rparr>
      | Inr w1 \<Rightarrow> w1\<lparr>isLoading := False\<rparr>)"

text \<open>A call that nothing interleaves with: the second clock readings and the outcome
  of the request are used only when the call reaches the \<open>await\<close>.\<close>

definition sendMessage ::
  "world \<Rightarrow> string \<Rightarrow> int \<Rightarrow> int \<Rightarrow> fetch_result \<Rightarrow> int \<Rightarrow> int \<Rightarrow> world" where
  "sendMessage w messageText now date res now' date' =
     (case sendMessage_begin w messageText now date of
        Returned w1 \<Rightarrow> w1
      | Awaiting w1 \<Rightarrow> sendMessage_settle w1 res now' date')"

subsection \<open>Submitting the form\<close>

text \<open>The code units that \<open>trim\<close> removes: tab, line feed, vertical tab, form feed,
  carriage return, space and no-break space.\<close>

definition isWhiteSpace :: "char \<Rightarrow> bool" where
  "isWhiteSpace c = (c \<in> set [CHR 0x09, CHR 0x0A, CHR 0x0B, CHR 0x0C, CHR 0x0D, CHR 0x20, CHR 0xA0])"

definition trim :: "string \<Rightarrow> string" where
  "trim s = rev (dropWhile isWhiteSpace (rev (dropWhile isWhiteSpace s)))"

text \<open>\<open>handleSubmit\<close> calls \<open>sendMessage\<close> without awaiting it, so it returns when
  the call reaches its \<open>await\<close>. \<open>preventDefault\<close> does not touch the state.\<close>

definition handleSubmit :: "world \<Rightarrow> int \<Rightarrow> int \<Rightarrow> suspension" where
  "handleSubmit w now date =
     (if trim (inputMessage w) = [] \<or> isLoading w then Returned w
      else sendMessage_begin w (inputMessage w) now date)"

text \<open>The \<open>onKeyDown\<close> handler of the input, given the key and the shift flag of the
  event.\<close>

definition onKeyDown :: "world \<Rightarrow> string \<Rightarrow> bool \<Rightarrow> int \<Rightarrow> int \<Rightarrow> suspension" where
  "onKeyDown w key shiftKey now date =
     (if key = ''Enter'' \<and> \<not> shiftKey then handleSubmit w now date else Returned w)"

subsection \<open>The suggestion buttons\<close>

definition handleRelatedClick :: "world \<Rightarrow> string \<Rightarrow> int \<Rightarrow> int \<Rightarrow> suspension" where
  "handleRelatedClick w intent now date = sendMessage_begin w intent now date"

text \<open>
  \<open>Object.entries\<close>: a \<open>TypeError\<close> on \<open>null\<close> and \<open>undefined\<close>, the properties of an
  object, the indexed elements of an array and of a string, and nothing for a boolean
  or a number.
\<close>

fun Object_entries :: "jsval \<Rightarrow> thrown + (string \<times> jsval) list" where
  "Object_entries Undefined = Inl (ErrorObj ''Cannot convert undefined or null to object'')"
| "Object_entries JNull = Inl (ErrorObj ''Cannot convert undefined or null to object'')"
| "Object_entries (JObj kvs) = Inr kvs"
| "Object_entries (JArr xs) = Inr (zip (map (\<lambda>i. toString (int i)) [0..<length xs]) xs)"
| "Object_entries (JStr s) =
     Inr (zip (map (\<lambda>i. toString (int i)) [0..<length s]) (map (\<lambda>c. JStr [c]) s))"
| "Object_entries (JBool b) = Inr []"
| "Object_entries (JNum n) = Inr []"

text \<open>A rendered button: its key, whether it is disabled, its label, and what its
  \<open>onClick\<close> does when it runs.\<close>

record button =
  btn_key :: string
  btn_disabled :: bool
  btn_label :: jsval
  btn_onClick :: "world \<Rightarrow> int \<Rightarrow> int \<Rightarrow> suspension"

text \<open>The buttons of \<open>Object.entries(related).map(...)\<close>, rendered in the state
  \<open>w\<close>.\<close>

definition related_buttons :: "world \<Rightarrow> thrown + button list" where
  "related_buttons w =
     (case Object_entries (related w) of
        Inl e \<Rightarrow> Inl e
      | Inr entries \<Rightarrow>
          Inr (map (\<lambda>(intent, question).
                 \<lparr>btn_key = intent, btn_disabled = isLoading w, btn_label = question,
                  btn_onClick = (\<lambda>w1 now date. handleRelatedClick w1 intent now date)\<rparr>)
               entries))"

text \<open>
  \<open>isLastBot\<close> for the message at position \<open>idx\<close>: the messages of the list are
  distinct objects, so \<open>===\<close> with the last bot message holds at its position only.
\<close>

definition isLastBot :: "Message list \<Rightarrow> nat \<Rightarrow> bool" where
  "isLastBot ms idx =
     (idx < length ms \<and> msg_sender (ms ! idx) = Bot \<and>
      (case filter (\<lambda>j. msg_sender (ms ! j) = Bot) [0..<length ms] of
         [] \<Rightarrow> False
       | j # js \<Rightarrow> last (j # js) = idx))"

text \<open>The buttons under the message at position \<open>idx\<close>:
  \<open>isLastBot && related && ...\<close>\<close>

definition suggestions :: "world \<Rightarrow> nat \<Rightarrow> thrown + button list" where
  "suggestions w idx =
     (if isLastBot (messages w) idx \<and> truthy (related w) then related_buttons w else Inr [])"

text \<open>A click runs \<open>onClick\<close> unless the button is disabled.\<close>

definition click :: "button \<Rightarrow> world \<Rightarrow> int \<Rightarrow> int \<Rightarrow> suspension" where
  "click b w now date = (if btn_disabled b then Returned w else btn_onClick b w now date)"

subsection \<open>Sequences of calls\<close>

text \<open>
  Calls of \<open>sendMessage\<close> may overlap: a second call can start before the request of
  the first has settled, and requests settle in any order. A run is a sequence of
  events, each the start of a call or the settling of a request in flight, with the
  clock readings taken at it. The configuration is the state and the number of requests
  in flight; a settling with no request in flight does not happen and changes nothing.
\<close>

datatype event = Call string int int | Settle fetch_result int int

fun step :: "world \<times> nat \<Rightarrow> event \<Rightarrow> world \<times> nat" where
  "step (w, n) (Call messageText now date) =
     (case sendMessage_begin w messageText now date of
        Returned w1 \<Rightarrow> (w1, n)
      | Awaiting w1 \<Rightarrow> (w1, Suc n))"
| "step (w, n) (Settle res now date) =
     (case n of 0 \<Rightarrow> (w, n) | Suc m \<Rightarrow> (sendMessage_settle w res now date, m))"

definition run :: "world \<times> nat \<Rightarrow> event list \<Rightarrow> world \<times> nat" where
  "run c evs = foldl step c evs"

section \<open>Auxiliary facts\<close>

subsection \<open>Trimming\<close>

lemma all_dropWhile:
  "(\<forall>x\<in>set (dropWhile P xs). P x) \<longleftrightarrow> (\<forall>x\<in>set xs. P x)"
proof
  assume a: "\<forall>x\<in>set (dropWhile P xs). P x"
  have "dropWhile P xs = []"
  proof (rule ccontr)
    assume ne: "dropWhile P xs \<noteq> []"
    then have "\<not> P (hd (dropWhile P xs))" by (rule hd_dropWhile)
    moreover have "hd (dropWhile P xs) \<in> set (dropWhile P xs)" using ne by simp
    ultimately show False using a by blast
  qed
  then show "\<forall>x\<in>set xs. P x" by (simp add: dropWhile_eq_Nil_conv)
next
  assume "\<forall>x\<in>set xs. P x"
  then show "\<forall>x\<in>set (dropWhile P xs). P x" by (meson set_dropWhileD)
qed

lemma trim_Nil_iff: "trim s = [] \<longleftrightarrow> (\<forall>c\<in>set s. isWhiteSpace c)"
  by (simp add: trim_def dropWhile_eq_Nil_conv all_dropWhile)

subsection \<open>What the two halves of a call do to the state\<close>

lemma settle_fetched: "fetched (sendMessage_settle w res now date) = fetched w"
  by (simp add: sendMessage_settle_def try_block_def Let_def
      split: fetch_result.splits json_result.splits sum.splits prod.splits)

lemma reply_text_property:
  "reply_text data = Inr t \<Longrightarrow> \<exists>r. property data k = Inr r"
  by (cases data) (simp_all add: reply_text_def)

text \<open>Nothing has been appended when the body of \<open>try\<close> throws: once the reply text
  has been read, reading \<open>related\<close> cannot throw.\<close>

lemma try_block_Inl:
  assumes "try_block w res now date = Inl (e, w1)"
  shows "w1 = w"
  using assms reply_text_property[of _ _ "''related''"]
  apply (simp add: try_block_def Let_def split: fetch_result.splits json_result.splits sum.splits if_splits)
  by fastforce


lemma begin_cases:
  "sendMessage_begin w mt now date = Returned (navigate ''/login'' w) \<or>
   (\<exists>w1 m. sendMessage_begin w mt now date = Awaiting w1 \<and> messages w1 = messages w @ [m]
       \<and> msg_id m = toString now)"
  by (simp add: sendMessage_begin_def Let_def split: option.splits)

lemma settle_cases:
  "messages (sendMessage_settle w res now date) = messages w \<or>
   (\<exists>m. messages (sendMessage_settle w res now date) = messages w @ [m]
       \<and> msg_id m = toString (now + 1))"
  by (simp add: sendMessage_settle_def try_block_def Let_def
      split: fetch_result.splits json_result.splits sum.splits prod.splits)

lemma step_messages:
  "\<exists>suffix. messages (fst (step c e)) = messages (fst c) @ suffix"
proof (cases c)
  case (Pair w n)
  show ?thesis
  proof (cases e)
    case (Call mt now date)
    then show ?thesis using Pair begin_cases[of w mt now date]
      by (auto simp: navigate_def)
  next
    case (Settle res now date)
    then show ?thesis using Pair settle_cases[of w res now date]
      by (cases n) auto
  qed
qed

lemma run_messages:
  "\<exists>suffix. messages (fst (run c evs)) = messages (fst c) @ suffix"
proof (induction evs arbitrary: c)
  case Nil
  then show ?case by (simp add: run_def)
next
  case (Cons e evs)
  obtain s1 where s1: "messages (fst (step c e)) = messages (fst c) @ s1"
    using step_messages by blast
  obtain s2 where s2: "messages (fst (run (step c e) evs)) = messages (fst (step c e)) @ s2"
    using Cons.IH by blast
  have "run c (e # evs) = run (step c e) evs" by (simp add: run_def)
  then show ?case using s1 s2 by simp
qed

section \<open>The claims\<close>



text \<open>
  C2, as amended. Each entry (key, question) of the suggestions gives one button, in
  the order of the entries: the question is its label, and the key is what its click
  passes to \<open>sendMessage\<close>. Unless the button is disabled, clicking it is calling
  \<open>sendMessage\<close> with the key: with a token in storage, the text of the user message
  appended and the \<open>message\<close> of the request body are the key.
\<close>

theorem C2_click_sends_key:
  assumes "Object_entries (related w) = Inr entries"
    and "i < length entries"
    and "entries ! i = (intent, question)"
  shows "\<exists>bs. related_buttons w = Inr bs \<and> length bs = length entries
           \<and> btn_key (bs ! i) = intent
           \<and> btn_label (bs ! i) = question
           \<and> btn_onClick (bs ! i) w1 now date = sendMessage_begin w1 intent now date
           \<and> click (bs ! i) w1 now date
               = (if isLoading w then Returned w1 else sendMessage_begin w1 intent now date)
           \<and> (localStorage w1 ''token'' = Some token \<and> token \<noteq> [] \<longrightarrow>
                (\<exists>w2. btn_onClick (bs ! i) w1 now date = Awaiting w2
                   \<and> msg_text (last (messages w2)) = JStr intent
                   \<and> req_body (last (fetched w2)) = JSON_stringify (JObj [(''message'', JStr intent)])))"
  using assms
  by (simp add: related_buttons_def click_def handleRelatedClick_def sendMessage_begin_def Let_def)

theorem C2_click_sends_key_witness:
  "Object_entries (related ((mounted [''token'' \<mapsto> ''t''])
       \<lparr>related := JObj [(''carry_over'', JStr ''Can leave carry over?'')]\<rparr>))
     = Inr [(''carry_over'', JStr ''Can leave carry over?'')]
   \<and> (0::nat) < length [(''carry_over'', JStr ''Can leave carry over?'')]
   \<and> [(''carry_over'', JStr ''Can leave carry over?'')] ! 0 = (''carry_over'', JStr ''Can leave carry over?'')
   \<and> localStorage (mounted [''token'' \<mapsto> ''t'']) ''token'' = Some ''t''
   \<and> ''t'' \<noteq> []
   \<and> (\<exists>bs. related_buttons ((mounted [''token'' \<mapsto> ''t''])
              \<lparr>related := JObj [(''carry_over'', JStr ''Can leave carry over?'')]\<rparr>) = Inr bs
          \<and> btn_label (bs ! 0) = JStr ''Can leave carry over?''
          \<and> click (bs ! 0) (mounted [''token'' \<mapsto> ''t'']) 2000 2000
              = sendMessage_begin (mounted [''token'' \<mapsto> ''t'']) ''carry_over'' 2000 2000
          \<and> (\<exists>w2. btn_onClick (bs ! 0) (mounted [''token'' \<mapsto> ''t'']) 2000 2000 = Awaiting w2
                 \<and> msg_text (last (messages w2)) = JStr ''carry_over''))"
proof -
  have t: "localStorage (mounted [''token'' \<mapsto> ''t'']) ''token'' = Some ''t'' \<and> ''t'' \<noteq> []"
    by (simp add: mounted_def)
  have a: "Object_entries (related ((mounted [''token'' \<mapsto> ''t''])
       \<lparr>related := JObj [(''carry_over'', JStr ''Can leave carry over?'')]\<rparr>))
     = Inr [(''carry_over'', JStr ''Can leave carry over?'')]" by simp
  have b: "(0::nat) < length [(''carry_over'', JStr ''Can leave carry over?'')]" by simp
  have c: "[(''carry_over'', JStr ''Can leave carry over?'')] ! 0
             = (''carry_over'', JStr ''Can leave carry over?'')" by simp
  have d: "\<not> isLoading ((mounted [''token'' \<mapsto> ''t''])
       \<lparr>related := JObj [(''carry_over'', JStr ''Can leave carry over?'')]\<rparr>)"
    by (simp add: mounted_def)
  from C2_click_sends_key [OF a b c, of "mounted [''token'' \<mapsto> ''t'']" 2000 2000 "''t''"] d t
  have "\<exists>bs. related_buttons ((mounted [''token'' \<mapsto> ''t''])
              \<lparr>related := JObj [(''carry_over'', JStr ''Can leave carry over?'')]\<rparr>) = Inr bs
          \<and> btn_label (bs ! 0) = JStr ''Can leave carry over?''
          \<and> click (bs ! 0) (mounted [''token'' \<mapsto> ''t'']) 2000 2000
              = sendMessage_begin (mounted [''token'' \<mapsto> ''t'']) ''carry_over'' 2000 2000
          \<and> (\<exists>w2. btn_onClick (bs ! 0) (mounted [''token'' \<mapsto> ''t'']) 2000 2000 = Awaiting w2
                 \<and> msg_text (last (messages w2)) = JStr ''carry_over'')"
    by auto
  with a b c t show ?thesis by blast
qed

text \<open>
  The claim as it was stated fails. After the reply \<open>"You get 20 days."\<close> with the
  suggestions \<open>{"carry_over": "Can leave carry over?"}\<close>, one button is rendered under
  the bot message, labelled with the question. Clicking it appends the user message
  \<open>"carry_over"\<close>, where submitting the question appends \<open>"Can leave carry over?"\<close>.
\<close>

theorem C2_counterexample:
  "(case suggestions
           ((mounted [''token'' \<mapsto> ''t''])
              \<lparr>messages := [\<lparr>msg_id = ''1001'', msg_text = JStr ''You get 20 days.'',
                              msg_sender = Bot, msg_timestamp = toISOString 1000, msg_status = None\<rparr>],
               related := JObj [(''carry_over'', JStr ''Can leave carry over?'')]\<rparr>) 0 of
      Inr [b] \<Rightarrow>
        btn_label b = JStr ''Can leave carry over?''
        \<and> map msg_text (messages (world_of (click b
             ((mounted [''token'' \<mapsto> ''t''])
                \<lparr>messages := [\<lparr>msg_id = ''1001'', msg_text = JStr ''You get 20 days.'',
                                msg_sender = Bot, msg_timestamp = toISOString 1000, msg_status = None\<rparr>],
                 related := JObj [(''carry_over'', JStr ''Can leave carry over?'')]\<rparr>) 2000 2000)))
           = [JStr ''You get 20 days.'', JStr ''carry_over'']
        \<and> map msg_text (messages (world_of (handleSubmit
             ((mounted [''token'' \<mapsto> ''t''])
                \<lparr>messages := [\<lparr>msg_id = ''1001'', msg_text = JStr ''You get 20 days.'',
                                msg_sender = Bot, msg_timestamp = toISOString 1000, msg_status = None\<rparr>],
                 related := JObj [(''carry_over'', JStr ''Can leave carry over?'')],
                 inputMessage := ''Can leave carry over?''\<rparr>) 2000 2000)))
           = [JStr ''You get 20 days.'', JStr ''Can leave carry over?'']
    | _ \<Rightarrow> False)"
  by (simp add: suggestions_def isLastBot_def related_buttons_def click_def handleRelatedClick_def
      handleSubmit_def trim_def isWhiteSpace_def sendMessage_begin_def mounted_def Let_def)

text \<open>
  C3. Along every sequence of calls of \<open>sendMessage\<close>, started and settled in any
  order and with any outcomes, the message list never gets shorter and the messages it
  held before are still there, unchanged and at the same positions.
\<close>

theorem C3_append_only:
  "length (messages w) \<le> length (messages (fst (run (w, n) evs)))
   \<and> take (length (messages w)) (messages (fst (run (w, n) evs))) = messages w"
  using run_messages[of "(w, n)" evs] by auto

text \<open>
  C4. When storage holds no token, \<open>sendMessage\<close> calls \<open>navigate("/login")\<close> and
  returns without reaching the \<open>await\<close>: messages, loading flag, error, suggestions and
  input are unchanged and \<open>fetch\<close> has not been called, whatever the outcome of a
  request would have been.
\<close>

theorem C4_no_token:
  assumes "localStorage w ''token'' = None"
  shows "sendMessage_begin w messageText now date = Returned (w\<lparr>navigated := navigated w @ [''/login'']\<rparr>)
    \<and> sendMessage w messageText now date res now' date' = w\<lparr>navigated := navigated w @ [''/login'']\<rparr>
    \<and> messages (sendMessage w messageText now date res now' date') = messages w
    \<and> isLoading (sendMessage w messageText now date res now' date') = isLoading w
    \<and> error (sendMessage w messageText now date res now' date') = error w
    \<and> related (sendMessage w messageText now date res now' date') = related w
    \<and> inputMessage (sendMessage w messageText now date res now' date') = inputMessage w
    \<and> fetched (sendMessage w messageText now date res now' date') = fetched w"
  using assms by (simp add: sendMessage_def sendMessage_begin_def navigate_def)

theorem C4_no_token_witness:
  "localStorage ((mounted Map.empty)\<lparr>error := ''Failed to send message'', inputMessage := ''hello''\<rparr>)
      ''token'' = None
   \<and> sendMessage ((mounted Map.empty)\<lparr>error := ''Failed to send message'', inputMessage := ''hello''\<rparr>)
      ''hello'' 1000 1000 (Response 200 (Json (JObj [(''message'', JStr ''hi'')]))) 1005 1005
     = (mounted Map.empty)\<lparr>error := ''Failed to send message'', inputMessage := ''hello'',
          navigated := [''/login'']\<rparr>"
proof -
  have h: "localStorage ((mounted Map.empty)\<lparr>error := ''Failed to send message'', inputMessage := ''hello''\<rparr>)
      ''token'' = None" by (simp add: mounted_def)
  show ?thesis
    using h C4_no_token [OF h, of "''hello''" 1000 1000
        "Response 200 (Json (JObj [(''message'', JStr ''hi'')]))" 1005 1005]
    by (simp add: mounted_def)
qed

text \<open>
  C5. Whenever the body of \<open>try\<close> throws, the call ends in the state it found, with
  the error set to the message of the thrown \<open>Error\<close>, or to the generic text when the
  thrown value is no \<open>Error\<close>, and the loading flag false: no bot message has been
  appended. This is what happens when \<open>fetch\<close> rejects, when the status is not a 2xx
  one, and when the body of a 2xx response does not parse. For a status that is not
  2xx the result does not depend on the body.
\<close>

theorem C5_failure:
  "(try_block w res now date = Inl (e, w1) \<longrightarrow>
      sendMessage_settle w res now date = w\<lparr>error := catch_message e, isLoading := False\<rparr>
      \<and> messages (sendMessage_settle w res now date) = messages w
      \<and> isLoading (sendMessage_settle w res now date) = False)
   \<and> sendMessage_settle w (FetchRejects e2) now date
        = w\<lparr>error := catch_message e2, isLoading := False\<rparr>
   \<and> (\<not> response_ok st \<longrightarrow>
        sendMessage_settle w (Response st body) now date
          = w\<lparr>error := ''Failed to send message'', isLoading := False\<rparr>)
   \<and> (response_ok st2 \<longrightarrow>
        sendMessage_settle w (Response st2 (JsonRejects e3)) now date
          = w\<lparr>error := catch_message e3, isLoading := False\<rparr>)
   \<and> catch_message (ErrorObj msg) = msg
   \<and> catch_message NonError = ''Failed to send message''"
proof -
  have "try_block w res now date = Inl (e, w1) \<Longrightarrow>
          sendMessage_settle w res now date = w\<lparr>error := catch_message e, isLoading := False\<rparr>"
    using try_block_Inl[of w res now date e w1] by (simp add: sendMessage_settle_def)
  then show ?thesis by (simp add: sendMessage_settle_def try_block_def)
qed

theorem C5_failure_witness:
  "try_block ((mounted [''token'' \<mapsto> ''t''])\<lparr>isLoading := True\<rparr>)
       (Response 200 (Json JNull)) 1000 1000
     = Inl (ErrorObj (typeErrorMessage ''null'' ''message''),
            (mounted [''token'' \<mapsto> ''t''])\<lparr>isLoading := True\<rparr>)
   \<and> \<not> response_ok 500
   \<and> response_ok 200
   \<and> sendMessage_settle ((mounted [''token'' \<mapsto> ''t''])\<lparr>isLoading := True\<rparr>)
        (Response 200 (Json JNull)) 1000 1000
      = (mounted [''token'' \<mapsto> ''t''])\<lparr>error := typeErrorMessage ''null'' ''message''\<rparr>
   \<and> sendMessage_settle ((mounted [''token'' \<mapsto> ''t''])\<lparr>isLoading := True\<rparr>)
        (FetchRejects (ErrorObj ''Failed to fetch'')) 1000 1000
      = (mounted [''token'' \<mapsto> ''t''])\<lparr>error := ''Failed to fetch''\<rparr>
   \<and> sendMessage_settle ((mounted [''token'' \<mapsto> ''t''])\<lparr>isLoading := True\<rparr>)
        (Response 500 (Json (JObj [(''message'', JStr ''not read'')]))) 1000 1000
      = (mounted [''token'' \<mapsto> ''t''])\<lparr>error := ''Failed to send message''\<rparr>
   \<and> sendMessage_settle ((mounted [''token'' \<mapsto> ''t''])\<lparr>isLoading := True\<rparr>)
        (Response 200 (JsonRejects (ErrorObj ''Unexpected end of JSON input''))) 1000 1000
      = (mounted [''token'' \<mapsto> ''t''])\<lparr>error := ''Unexpected end of JSON input''\<rparr>"
proof -
  have a: "try_block ((mounted [''token'' \<mapsto> ''t''])\<lparr>isLoading := True\<rparr>)
       (Response 200 (Json JNull)) 1000 1000
     = Inl (ErrorObj (typeErrorMessage ''null'' ''message''),
            (mounted [''token'' \<mapsto> ''t''])\<lparr>isLoading := True\<rparr>)"
    by (simp add: try_block_def reply_text_def response_ok_def)
  have b: "\<not> response_ok 500" and c: "response_ok 200"
    by (simp_all add: response_ok_def)
  show ?thesis
    using a b c
      C5_failure [of "(mounted [''token'' \<mapsto> ''t''])\<lparr>isLoading := True\<rparr>"
        "Response 200 (Json JNull)" 1000 1000
        "ErrorObj (typeErrorMessage ''null'' ''message'')"
        "(mounted [''token'' \<mapsto> ''t''])\<lparr>isLoading := True\<rparr>"
        "ErrorObj ''Failed to fetch''" 500 "Json (JObj [(''message'', JStr ''not read'')])"
        200 "ErrorObj ''Unexpected end of JSON input''" "''x''"]
    by (simp add: mounted_def)
qed

text \<open>
  C6. Clearing sets the message list to the empty list, the error to the empty string
  and the suggestions to \<open>null\<close>, and changes nothing else: the stored token, the
  loading flag, the input and the effect logs are as before.
\<close>

theorem C6_handleClear:
  "handleClear w = w\<lparr>messages := [], error := [], related := JNull\<rparr>
   \<and> messages (handleClear w) = []
   \<and> error (handleClear w) = []
   \<and> related (handleClear w) = JNull
   \<and> localStorage (handleClear w) = localStorage w
   \<and> isLoading (handleClear w) = isLoading w
   \<and> inputMessage (handleClear w) = inputMessage w
   \<and> navigated (handleClear w) = navigated w
   \<and> fetched (handleClear w) = fetched w"
  by (simp add: handleClear_def)

text \<open>
  C7, as amended. When storage holds a token that is not the empty string, the call
  reaches the \<open>await\<close>, and in the state it is suspended in, before the request has
  settled, the error is the empty string and the suggestions are \<open>null\<close>, whatever
  they were before the call.
\<close>

theorem C7_error_reset:
  assumes "localStorage w ''token'' = Some token" and "token \<noteq> []"
  shows "\<exists>w1. sendMessage_begin w messageText now date = Awaiting w1
           \<and> error w1 = [] \<and> related w1 = JNull"
  using assms by (simp add: sendMessage_begin_def Let_def)

theorem C7_error_reset_witness:
  "localStorage ((mounted [''token'' \<mapsto> ''abc''])\<lparr>error := ''Failed to send message''\<rparr>) ''token''
     = Some ''abc''
   \<and> ''abc'' \<noteq> []
   \<and> error ((mounted [''token'' \<mapsto> ''abc''])\<lparr>error := ''Failed to send message''\<rparr>) \<noteq> []
   \<and> (\<exists>w1. sendMessage_begin ((mounted [''token'' \<mapsto> ''abc''])\<lparr>error := ''Failed to send message''\<rparr>)
              ''hi'' 1000 1000 = Awaiting w1
          \<and> error w1 = [] \<and> related w1 = JNull)"
proof -
  have a: "localStorage ((mounted [''token'' \<mapsto> ''abc''])\<lparr>error := ''Failed to send message''\<rparr>) ''token''
     = Some ''abc''" by (simp add: mounted_def)
  have b: "''abc'' \<noteq> []" by simp
  show ?thesis
    using a b C7_error_reset [OF a b, of "''hi''" 1000 1000] by simp
qed

text \<open>
  The claim as it was stated fails for a token that is present in storage and empty:
  \<open>!token\<close> holds of the empty string, so the call navigates to the login page and
  returns, and the error of an earlier failure stays.
\<close>

theorem C7_counterexample:
  "localStorage ((mounted [''token'' \<mapsto> []])\<lparr>error := ''Failed to send message''\<rparr>) ''token'' = Some []
   \<and> sendMessage_begin ((mounted [''token'' \<mapsto> []])\<lparr>error := ''Failed to send message''\<rparr>) ''hi'' 1000 1000
      = Returned ((mounted [''token'' \<mapsto> []])\<lparr>error := ''Failed to send message'', navigated := [''/login'']\<rparr>)
   \<and> error (world_of (sendMessage_begin ((mounted [''token'' \<mapsto> []])\<lparr>error := ''Failed to send message''\<rparr>) ''hi'' 1000 1000))
      = ''Failed to send message''"
  by (simp add: sendMessage_begin_def mounted_def navigate_def)

text \<open>
  C8, as amended. When storage holds a token that is not the empty string, the call
  makes one call of \<open>fetch\<close> before it suspends: a POST to the message endpoint with the
  two headers, the bearer token being the stored one, and with the text of the user
  message just appended as the \<open>message\<close> of the body. Whatever the outcome, the rest
  of the call makes no further request, so the whole call makes exactly one.
\<close>

theorem C8_one_request:
  assumes "localStorage w ''token'' = Some token" and "token \<noteq> []"
  shows "\<exists>w1. sendMessage_begin w messageText now date = Awaiting w1
           \<and> fetched w1 = fetched w @
                [\<lparr>req_url = ''http://localhost:3000/api/message'', req_method = ''POST'',
                  req_headers = [(''Content-Type'', ''application/json''),
                                 (''Authorization'', ''Bearer '' @ token)],
                  req_body = JSON_stringify (JObj [(''message'', msg_text (last (messages w1)))])\<rparr>]
           \<and> msg_text (last (messages w1)) = JStr messageText
           \<and> fetched (sendMessage_settle w1 res now' date') = fetched w1
           \<and> sendMessage w messageText now date res now' date' = sendMessage_settle w1 res now' date'"
  using assms by (simp add: sendMessage_def sendMessage_begin_def Let_def settle_fetched)

theorem C8_one_request_witness:
  "localStorage (mounted [''token'' \<mapsto> ''abc'']) ''token'' = Some ''abc''
   \<and> ''abc'' \<noteq> []
   \<and> fetched (sendMessage (mounted [''token'' \<mapsto> ''abc'']) ''hi'' 1000 1000
        (Response 500 (Json JNull)) 1005 1005)
      = [\<lparr>req_url = ''http://localhost:3000/api/message'', req_method = ''POST'',
          req_headers = [(''Content-Type'', ''application/json''),
                         (''Authorization'', ''Bearer abc'')],
          req_body = JSON_stringify (JObj [(''message'', JStr ''hi'')])\<rparr>]"
proof -
  have a: "localStorage (mounted [''token'' \<mapsto> ''abc'']) ''token'' = Some ''abc''"
    by (simp add: mounted_def)
  have b: "''abc'' \<noteq> []" by simp
  from C8_one_request [OF a b, of "''hi''" 1000 1000 "Response 500 (Json JNull)" 1005 1005]
  have "fetched (sendMessage (mounted [''token'' \<mapsto> ''abc'']) ''hi'' 1000 1000
        (Response 500 (Json JNull)) 1005 1005)
      = [\<lparr>req_url = ''http://localhost:3000/api/message'', req_method = ''POST'',
          req_headers = [(''Content-Type'', ''application/json''),
                         (''Authorization'', ''Bearer abc'')],
          req_body = JSON_stringify (JObj [(''message'', JStr ''hi'')])\<rparr>]"
    by (auto simp: mounted_def)
  with a b show ?thesis by blast
qed

text \<open>
  The claim as it was stated fails for a token that is present in storage and empty:
  the call returns at the guard and \<open>fetch\<close> is never called.
\<close>

theorem C8_counterexample:
  "localStorage (mounted [''token'' \<mapsto> []]) ''token'' = Some []
   \<and> fetched (sendMessage (mounted [''token'' \<mapsto> []]) ''hi'' 1000 1000
        (Response 200 (Json (JObj [(''message'', JStr ''hello'')]))) 1005 1005) = []"
  by (simp add: sendMessage_def sendMessage_begin_def mounted_def navigate_def)

text \<open>
  C9. The ids of the messages are to be pairwise distinct: each is the key of its
  message in the rendered list. A user message gets the reading of the clock as its
  id and a bot message the reading plus one, which keeps a reply apart from its own
  request when both fall in the same millisecond. It does not keep it apart from the
  next request: a reply that arrives at millisecond 1001 gets the id \<open>"1002"\<close>, and so
  does the message sent at millisecond 1002, with the clock advancing from each event
  to the next.
\<close>

theorem C9_duplicate_ids:
  "map msg_id (messages (fst (run (mounted [''token'' \<mapsto> ''t''], 0)
      [Call ''a'' 1000 1000,
       Settle (Response 200 (Json (JObj [(''message'', JStr ''b'')]))) 1000 1000])))
     = [''1000'', ''1001'']
   \<and> map msg_id (messages (fst (run (mounted [''token'' \<mapsto> ''t''], 0)
      [Call ''a'' 1000 1000,
       Settle (Response 200 (Json (JObj [(''message'', JStr ''b'')]))) 1001 1001,
       Call ''c'' 1002 1002])))
     = [''1000'', ''1002'', ''1002'']
   \<and> \<not> distinct (map msg_id (messages (fst (run (mounted [''token'' \<mapsto> ''t''], 0)
      [Call ''a'' 1000 1000,
       Settle (Response 200 (Json (JObj [(''message'', JStr ''b'')]))) 1001 1001,
       Call ''c'' 1002 1002]))))"
proof -
  have a: "toString 1000 = ''1000''" by code_simp
  have b: "toString 1001 = ''1001''" by code_simp
  have c: "toString 1002 = ''1002''" by code_simp
  have same: "map msg_id (messages (fst (run (mounted [''token'' \<mapsto> ''t''], 0)
      [Call ''a'' 1000 1000,
       Settle (Response 200 (Json (JObj [(''message'', JStr ''b'')]))) 1000 1000])))
     = [''1000'', ''1001'']"
    by (simp add: run_def sendMessage_begin_def sendMessage_settle_def try_block_def
        reply_text_def response_ok_def mounted_def Let_def a b)
  have next_ms: "map msg_id (messages (fst (run (mounted [''token'' \<mapsto> ''t''], 0)
      [Call ''a'' 1000 1000,
       Settle (Response 200 (Json (JObj [(''message'', JStr ''b'')]))) 1001 1001,
       Call ''c'' 1002 1002])))
     = [''1000'', ''1002'', ''1002'']"
    by (simp add: run_def sendMessage_begin_def sendMessage_settle_def try_block_def
        reply_text_def response_ok_def mounted_def Let_def a c)
  show ?thesis using same next_ms by simp
qed

text \<open>
  C10. While a request is pending, or while the input is empty or holds white space
  only, the submit handler returns with the whole state as it was: nothing is
  appended, no hook is set, and neither \<open>navigate\<close> nor \<open>fetch\<close> is called. The same
  holds of the key handler of the input, for the Enter key as for any other, and of
  the Enter key followed by the submission of the form that it causes.
\<close>

theorem C10_submit_guard:
  assumes "isLoading w \<or> (\<forall>c\<in>set (inputMessage w). isWhiteSpace c)"
  shows "handleSubmit w now date = Returned w
         \<and> onKeyDown w key shiftKey now date = Returned w
         \<and> handleSubmit (world_of (onKeyDown w ''Enter'' False now date)) now' date' = Returned w"
  using assms by (auto simp: handleSubmit_def onKeyDown_def trim_Nil_iff)

theorem C10_submit_guard_witness:
  "inputMessage ((mounted [''token'' \<mapsto> ''t''])\<lparr>inputMessage := [CHR 0x20, CHR 0x09]\<rparr>)
     = [CHR 0x20, CHR 0x09]
   \<and> isWhiteSpace (CHR 0x20) \<and> isWhiteSpace (CHR 0x09)
   \<and> isLoading ((mounted [''token'' \<mapsto> ''t''])\<lparr>inputMessage := ''hello'', isLoading := True\<rparr>)
   \<and> handleSubmit ((mounted [''token'' \<mapsto> ''t''])\<lparr>inputMessage := [CHR 0x20, CHR 0x09]\<rparr>) 1000 1000
      = Returned ((mounted [''token'' \<mapsto> ''t''])\<lparr>inputMessage := [CHR 0x20, CHR 0x09]\<rparr>)
   \<and> onKeyDown ((mounted [''token'' \<mapsto> ''t''])\<lparr>inputMessage := ''hello'', isLoading := True\<rparr>)
        ''Enter'' False 1000 1000
      = Returned ((mounted [''token'' \<mapsto> ''t''])\<lparr>inputMessage := ''hello'', isLoading := True\<rparr>)"
proof -
  have a: "\<forall>c\<in>set (inputMessage ((mounted [''token'' \<mapsto> ''t''])\<lparr>inputMessage := [CHR 0x20, CHR 0x09]\<rparr>)).
      isWhiteSpace c" by (simp add: isWhiteSpace_def)
  have b: "isLoading ((mounted [''token'' \<mapsto> ''t''])\<lparr>inputMessage := ''hello'', isLoading := True\<rparr>)"
    by simp
  have c: "isWhiteSpace (CHR 0x20) \<and> isWhiteSpace (CHR 0x09)" by (simp add: isWhiteSpace_def)
  show ?thesis
    using a b c
      C10_submit_guard [of "(mounted [''token'' \<mapsto> ''t''])\<lparr>inputMessage := [CHR 0x20, CHR 0x09]\<rparr>"
        1000 1000 "''Enter''" False]
      C10_submit_guard [of "(mounted [''token'' \<mapsto> ''t''])\<lparr>inputMessage := ''hello'', isLoading := True\<rparr>"
        1000 1000 "''Enter''" False]
    by simp
qed

end
